theory Spec2Isabelle
  imports Main "HOL-Library.Word"
begin

unbundle bit_operations_syntax

section \<open>Physical and virtual memory management of Zion (mm/pmap.c)\<close>

subsection \<open>Constants and address arithmetic\<close>

type_synonym u32 = "32 word"

text \<open>
  Modelled from the spec: the paging constants and macros of include/mmu.h, a header
  outside this file. The spec gives a 32-bit linear address, a two-level structure
  with 1024 entries per table and the permission bits present, writable and
  user-accessible; the comment in \<open>pgdir_walk\<close> gives the 10/10/12 split of a linear
  address and the comment of \<open>page_insert\<close> puts the permissions in the low 12 bits
  of an entry. The bit values are those of the x86 architecture.
\<close>

definition PGSIZE :: u32 where
  "PGSIZE = 4096"

definition PTE_P :: u32 where
  "PTE_P = 1"

definition PTE_W :: u32 where
  "PTE_W = 2"

definition PTE_U :: u32 where
  "PTE_U = 4"

definition PDX :: "u32 \<Rightarrow> u32" where
  "PDX la = drop_bit 22 la AND mask 10"

definition PTX :: "u32 \<Rightarrow> u32" where
  "PTX la = drop_bit 12 la AND mask 10"

definition PTE_ADDR :: "u32 \<Rightarrow> u32" where
  "PTE_ADDR pte = pte AND NOT (mask 12)"

text \<open>
  Modelled from the spec: \<open>round_up\<close> comes from a header outside this file; the
  spec's bump allocator rounds a byte count up to page granularity. The arithmetic is
  that of a 32-bit unsigned integer.
\<close>

definition round_up :: "u32 \<Rightarrow> u32 \<Rightarrow> u32" where
  "round_up a n = (a + n - 1) - (a + n - 1) mod n"

text \<open>
  Modelled from the spec: the standard low I/O hole of a PC, from 640K to 1M
  (IOPHYSMEM and EXTPHYSMEM of a header outside this file).
\<close>

definition IOPHYSMEM :: u32 where
  "IOPHYSMEM = 0xA0000"

definition EXTPHYSMEM :: u32 where
  "EXTPHYSMEM = 0x100000"

text \<open>
  Modelled from the spec: the out-of-memory result. Its value is declared in
  include/error.h, outside this file; the code returns its negation.
\<close>

definition E_NO_MEM :: int where
  "E_NO_MEM = 4"

text \<open>
  Link-time constants: the kernel base \<open>KERNBASE\<close> (from a header outside this file)
  and the linker symbol \<open>end\<close>, the first address past the kernel image. Both are
  parameters of the model.
\<close>

record layout =
  KERNBASE :: u32
  kern_end :: u32

text \<open>
  Modelled from the spec: \<open>KADDR\<close> and \<open>PADDR\<close> (macros of a header outside this file)
  convert between a physical address and the kernel virtual address of the same
  byte; physical memory is mapped at the kernel base, so they add and subtract
  \<open>KERNBASE\<close>.
\<close>

definition KADDR :: "layout \<Rightarrow> u32 \<Rightarrow> u32" where
  "KADDR L pa = pa + KERNBASE L"

definition PADDR :: "layout \<Rightarrow> u32 \<Rightarrow> u32" where
  "PADDR L kva = kva - KERNBASE L"

subsection \<open>State\<close>

text \<open>
  Modelled from the spec: \<open>struct Page\<close> is declared in a header outside this file.
  The spec's page frame descriptor has an unsigned reference count and a link to the
  next descriptor of the free list. The width of the count is a parameter
  (the type variable \<open>'r\<close>). A pointer to a descriptor is \<open>None\<close> for NULL and
  \<open>Some i\<close> for \<open>&pages[i]\<close>.
\<close>

record (overloaded) ('r::len) Page =
  pp_next :: "nat option"
  pp_ref :: "'r word"

text \<open>
  The globals of pmap.c. Physical memory holds the page directories and page tables:
  \<open>mem\<close> maps the physical address of a 32-bit entry to its value, and a kernel
  pointer to an entry (\<open>pde_t *\<close>, \<open>pte_t *\<close>) is represented by the physical address
  it refers to, NULL by \<open>None\<close>. \<open>tlb\<close> records the calls of \<open>invlpg\<close>, oldest first.
  The registry \<open>pages\<close> is a list of its own: the bytes of physical memory that hold
  the array are not part of \<open>mem\<close>, and an index outside the list is an access outside
  the array.
\<close>

record (overloaded) ('r::len) state =
  npages :: u32
  n_base_pages :: u32
  kern_pgdir :: u32
  pages :: "'r Page list"
  free_pages :: "nat option"
  nextfree :: u32
  mem :: "u32 \<Rightarrow> u32"
  tlb :: "u32 list"

text \<open>
  What stops the kernel: a failed \<open>assert\<close>, a \<open>panic\<close>, an access to
  \<open>pages[i]\<close> outside the array and an access through a NULL descriptor pointer
  (both undefined in C).
\<close>

datatype fault = AssertFail | Panic | OutOfRange | NullPointer

text \<open>
  Modelled from the spec: \<open>Page::physaddr\<close> and \<open>Page::data\<close> are declared in a header
  outside this file. The descriptor \<open>pages[i]\<close> stands for frame \<open>i\<close>, so the physical
  address of its page is the index shifted by the page shift, and \<open>data\<close> is the
  kernel address of that page.
\<close>

definition physaddr :: "nat \<Rightarrow> u32" where
  "physaddr pp = push_bit 12 (word_of_nat pp)"

text \<open>
  \<open>memset(pp->data(), c, PGSIZE)\<close>: every entry of the 4096 bytes from the physical
  address \<open>pa\<close> becomes the fill word.
\<close>

definition memset_page :: "(u32 \<Rightarrow> u32) \<Rightarrow> u32 \<Rightarrow> u32 \<Rightarrow> (u32 \<Rightarrow> u32)" where
  "memset_page m pa c = (\<lambda>a. if a - pa < PGSIZE then c else m a)"

text \<open>\<open>pp->pp_ref++\<close>.\<close>

definition pp_ref_inc :: "('r::len) state \<Rightarrow> nat \<Rightarrow> fault + 'r state" where
  "pp_ref_inc s pp =
     (if pp < length (pages s)
      then Inr (s\<lparr>pages := (pages s)[pp := (pages s ! pp)\<lparr>pp_ref := pp_ref (pages s ! pp) + 1\<rparr>]\<rparr>)
      else Inl OutOfRange)"

subsection \<open>Tracking of physical pages\<close>

definition page_alloc :: "('r::len) state \<Rightarrow> fault + (nat option \<times> 'r state)" where
  "page_alloc s =
     (case free_pages s of
        None \<Rightarrow> Inr (None, s)
      | Some pageallocate \<Rightarrow>
          if pageallocate < length (pages s)
          then Inr (Some pageallocate,
                    s\<lparr>mem := memset_page (mem s) (physaddr pageallocate) 0xCCCCCCCC,
                      free_pages := pp_next (pages s ! pageallocate)\<rparr>)
          else Inl OutOfRange)"

definition page_free :: "('r::len) state \<Rightarrow> nat \<Rightarrow> fault + 'r state" where
  "page_free s pp =
     (if pp < length (pages s)
      then if pp_ref (pages s ! pp) = 0
           then Inr (s\<lparr>mem := memset_page (mem s) (physaddr pp) 0xCCCCCCCC,
                       pages := (pages s)[pp := (pages s ! pp)\<lparr>pp_next := free_pages s\<rparr>],
                       free_pages := Some pp\<rparr>)
           else Inl AssertFail
      else Inl OutOfRange)"

definition page_decref :: "('r::len) state \<Rightarrow> nat \<Rightarrow> fault + 'r state" where
  "page_decref s pp =
     (if pp < length (pages s)
      then let s1 = s\<lparr>pages := (pages s)[pp := (pages s ! pp)\<lparr>pp_ref := pp_ref (pages s ! pp) - 1\<rparr>]\<rparr>
           in if pp_ref (pages s1 ! pp) = 0 then page_free s1 pp else Inr s1
      else Inl OutOfRange)"

subsection \<open>Page tables\<close>

definition pgdir_walk ::
  "('r::len) state \<Rightarrow> u32 \<Rightarrow> u32 \<Rightarrow> bool \<Rightarrow> fault + (u32 option \<times> 'r state)" where
  "pgdir_walk s pgdir va create =
     (let pde = pgdir + 4 * PDX va in
      if mem s pde = 0 then
        if \<not> create then Inr (None, s)
        else
          (case page_alloc s of
             Inl f \<Rightarrow> Inl f
           | Inr (None, s1) \<Rightarrow> Inr (None, s1)
           | Inr (Some pageallocate, s1) \<Rightarrow>
               (case pp_ref_inc s1 pageallocate of
                  Inl f \<Rightarrow> Inl f
                | Inr s2 \<Rightarrow>
                    let s3 = s2\<lparr>mem := memset_page (mem s2) (physaddr pageallocate) 0\<rparr>;
                        s4 = s3\<lparr>mem := (mem s3)(pde := physaddr pageallocate OR PTE_U OR PTE_W OR PTE_P)\<rparr>
                    in Inr (Some (PTE_ADDR (mem s4 pde) + 4 * PTX va), s4)))
      else Inr (Some (PTE_ADDR (mem s pde) + 4 * PTX va), s))"

text \<open>
  \<open>page_lookup\<close>: \<open>pte_store\<close> tells whether the caller passed a non-null
  \<open>pte_store\<close>. The result is the descriptor pointer returned and what was written
  to \<open>*pte_store\<close> (\<open>None\<close> when nothing was written).
\<close>

definition page_lookup ::
  "('r::len) state \<Rightarrow> u32 \<Rightarrow> u32 \<Rightarrow> bool \<Rightarrow> fault + ((nat option \<times> u32 option) \<times> 'r state)" where
  "page_lookup s pgdir va pte_store =
     (case pgdir_walk s pgdir va False of
        Inl f \<Rightarrow> Inl f
      | Inr (None, s1) \<Rightarrow> Inr ((None, None), s1)
      | Inr (Some pte, s1) \<Rightarrow>
          if pte_store then
            if mem s1 pte = 0 then Inr ((None, Some pte), s1)
            else Inr ((Some (unat (PTE_ADDR (mem s1 pte)) div unat PGSIZE), Some pte), s1)
          else Inr ((None, None), s1))"

definition tlb_invalidate :: "('r::len) state \<Rightarrow> u32 \<Rightarrow> u32 \<Rightarrow> 'r state" where
  "tlb_invalidate s pgdir va = s\<lparr>tlb := tlb s @ [va]\<rparr>"

definition page_remove :: "('r::len) state \<Rightarrow> u32 \<Rightarrow> u32 \<Rightarrow> fault + 'r state" where
  "page_remove s pgdir va =
     (case page_lookup s pgdir va True of
        Inl f \<Rightarrow> Inl f
      | Inr ((None, pte), s1) \<Rightarrow> Inr s1
      | Inr ((Some pp, pte), s1) \<Rightarrow>
          (case page_decref s1 pp of
             Inl f \<Rightarrow> Inl f
           | Inr s2 \<Rightarrow>
               let s3 = (case pte of None \<Rightarrow> s2 | Some p \<Rightarrow> s2\<lparr>mem := (mem s2)(p := 0)\<rparr>)
               in Inr (tlb_invalidate s3 pgdir va)))"

text \<open>Lines 494 to 498 of \<open>page_insert\<close>: the entry is written and 0 returned.\<close>

definition page_insert_set ::
  "('r::len) state \<Rightarrow> u32 \<Rightarrow> nat \<Rightarrow> u32 \<Rightarrow> u32 \<Rightarrow> fault + (int \<times> 'r state)" where
  "page_insert_set s pde pp va perm =
     Inr (0, s\<lparr>mem := (mem s)(PTE_ADDR (mem s pde) + 4 * PTX va := physaddr pp OR perm OR PTE_P)\<rparr>)"

definition page_insert ::
  "layout \<Rightarrow> ('r::len) state \<Rightarrow> u32 \<Rightarrow> nat \<Rightarrow> u32 \<Rightarrow> u32 \<Rightarrow> fault + (int \<times> 'r state)" where
  "page_insert L s pgdir pp va perm =
     (let pde = pgdir + 4 * PDX va in
      case pgdir_walk s pgdir va False of
        Inl f \<Rightarrow> Inl f
      | Inr (Some pte, s0) \<Rightarrow>
          if PTE_ADDR (mem s0 pte) \<noteq> physaddr pp then
            (case (if PTE_ADDR (mem s0 pte) \<noteq> 0 then page_remove s0 pgdir va else Inr s0) of
               Inl f \<Rightarrow> Inl f
             | Inr s1 \<Rightarrow>
                 (case pp_ref_inc s1 pp of
                    Inl f \<Rightarrow> Inl f
                  | Inr s2 \<Rightarrow> page_insert_set s2 pde pp va perm))
          else page_insert_set s0 pde pp va perm
      | Inr (None, s0) \<Rightarrow>
          (case pgdir_walk s0 pgdir va True of
             Inl f \<Rightarrow> Inl f
           | Inr (None, s1) \<Rightarrow> Inr (- E_NO_MEM, s1)
           | Inr (Some pte, s1) \<Rightarrow>
               let s2 = s1\<lparr>mem := (mem s1)(pde := PADDR L (PTE_ADDR (KADDR L pte) OR perm OR PTE_P))\<rparr>
               in (case pp_ref_inc s2 pp of
                     Inl f \<Rightarrow> Inl f
                   | Inr s3 \<Rightarrow> page_insert_set s3 pde pp va perm)))"

subsection \<open>Kernel-space mapping\<close>

definition page_map :: "layout \<Rightarrow> ('r::len) state \<Rightarrow> u32 \<Rightarrow> u32 \<Rightarrow> fault + (int \<times> 'r state)" where
  "page_map L s va perm =
     (case page_alloc s of
        Inl f \<Rightarrow> Inl f
      | Inr (None, s1) \<Rightarrow> Inr (- E_NO_MEM, s1)
      | Inr (Some allocatepage, s1) \<Rightarrow>
          let s2 = s1\<lparr>mem := memset_page (mem s1) (physaddr allocatepage) 0\<rparr>
          in (case page_insert L s2 (kern_pgdir s2) allocatepage va perm of
                Inl f \<Rightarrow> Inl f
              | Inr (r, s3) \<Rightarrow> Inr (0, s3)))"


text \<open>
  The loop of \<open>page_map_segment\<close>, \<open>for (i = 0; i < size; i += PGSIZE)\<close>. The size has
  been rounded up to a multiple of the page size before the loop starts, so \<open>i\<close> takes
  the values 0, PGSIZE, ... below \<open>size\<close> and the body runs \<open>size / PGSIZE\<close> times:
  the first argument counts the runs that remain.
\<close>

fun page_map_segment_loop ::
  "nat \<Rightarrow> ('r::len) state \<Rightarrow> u32 \<Rightarrow> u32 \<Rightarrow> u32 \<Rightarrow> u32 \<Rightarrow> u32 \<Rightarrow> fault + 'r state" where
  "page_map_segment_loop 0 s pgdir la i pa perm = Inr s"
| "page_map_segment_loop (Suc n) s pgdir la i pa perm =
     (case pgdir_walk s pgdir (la + i) True of
        Inl f \<Rightarrow> Inl f
      | Inr (None, s1) \<Rightarrow> Inl AssertFail
      | Inr (Some pte, s1) \<Rightarrow>
          page_map_segment_loop n (s1\<lparr>mem := (mem s1)(pte := (pa + i) OR perm OR PTE_P)\<rparr>)
            pgdir la (i + PGSIZE) pa perm)"

definition page_map_segment ::
  "('r::len) state \<Rightarrow> u32 \<Rightarrow> u32 \<Rightarrow> u32 \<Rightarrow> u32 \<Rightarrow> u32 \<Rightarrow> fault + 'r state" where
  "page_map_segment s pgdir la sz pa perm =
     (let sz = round_up sz PGSIZE in
      if la mod PGSIZE \<noteq> 0 then Inl AssertFail
      else page_map_segment_loop (unat sz div unat PGSIZE) s pgdir la 0 pa perm)"

subsection \<open>Memory detection and the boot allocator\<close>


text \<open>\<open>boot_alloc\<close> returns the kernel virtual address of the block.\<close>

definition boot_alloc :: "layout \<Rightarrow> ('r::len) state \<Rightarrow> u32 \<Rightarrow> fault + (u32 \<times> 'r state)" where
  "boot_alloc L s n =
     (let s1 = (if nextfree s = 0 then s\<lparr>nextfree := round_up (kern_end L) PGSIZE\<rparr> else s);
          v = nextfree s1;
          s2 = s1\<lparr>nextfree := nextfree s1 + round_up n PGSIZE\<rparr>
      in if nextfree s2 > npages s2 * PGSIZE + KERNBASE L then Inl Panic else Inr (v, s2))"

subsection \<open>Initialisation of the registry\<close>

text \<open>
  The first loop of \<open>page_init\<close>, \<open>for (i = 1; i < npages; i++)\<close>: every descriptor from
  \<open>i\<close> on gets count 0 and is pushed on the free list.
\<close>

function page_init_free :: "nat \<Rightarrow> ('r::len) state \<Rightarrow> fault + 'r state" where
  "page_init_free i s =
     (if i < unat (npages s) then
        if i < length (pages s) then
          page_init_free (Suc i)
            (s\<lparr>pages := (pages s)[i := (pages s ! i)\<lparr>pp_ref := 0, pp_next := free_pages s\<rparr>],
               free_pages := Some i\<rparr>)
        else Inl OutOfRange
      else Inr s)"
  by pat_completeness auto
termination
  by (relation "measure (\<lambda>(i, s). unat (npages s) - i)") auto

declare page_init_free.simps [simp del]

text \<open>
  The body shared by the statements for page 0 and by the two loops that follow:
  \<open>pages[i + 1].pp_next = pages[i].pp_next; pages[i].pp_ref++\<close>.
\<close>

definition page_init_reserve :: "('r::len) state \<Rightarrow> nat \<Rightarrow> fault + 'r state" where
  "page_init_reserve s i =
     (if i + 1 < length (pages s) then
        let ps1 = (pages s)[i + 1 := (pages s ! (i + 1))\<lparr>pp_next := pp_next (pages s ! i)\<rparr>];
            ps2 = ps1[i := (ps1 ! i)\<lparr>pp_ref := pp_ref (ps1 ! i) + 1\<rparr>]
        in Inr (s\<lparr>pages := ps2\<rparr>)
      else Inl OutOfRange)"

text \<open>The loop over the I/O hole, from \<open>i\<close> up to \<open>hi\<close>.\<close>

function page_init_hole :: "nat \<Rightarrow> nat \<Rightarrow> ('r::len) state \<Rightarrow> fault + 'r state" where
  "page_init_hole i hi s =
     (if i < hi then
        (case page_init_reserve s i of
           Inl f \<Rightarrow> Inl f
         | Inr s1 \<Rightarrow> page_init_hole (Suc i) hi s1)
      else Inr s)"
  by pat_completeness auto
termination
  by (relation "measure (\<lambda>(i, hi, s). hi - i)") auto

declare page_init_hole.simps [simp del]

text \<open>
  The address \<open>boot_alloc(0)\<close> returns, and the frame it lies in: the frontier of the
  boot allocator.
\<close>

definition boot_next :: "layout \<Rightarrow> ('r::len) state \<Rightarrow> u32" where
  "boot_next L s = (if nextfree s = 0 then round_up (kern_end L) PGSIZE else nextfree s)"

definition boot_frontier :: "layout \<Rightarrow> ('r::len) state \<Rightarrow> nat" where
  "boot_frontier L s = unat (PADDR L (boot_next L s)) div unat PGSIZE"


text \<open>
  The loop over extended memory, \<open>for (i = ...; i < PADDR(boot_alloc(0)) / PGSIZE; i++)\<close>:
  \<open>boot_alloc(0)\<close> is called before every test of the condition.
\<close>

function page_init_ext :: "layout \<Rightarrow> nat \<Rightarrow> ('r::len) state \<Rightarrow> fault + 'r state" where
  "page_init_ext L i s =
     (case boot_alloc L s 0 of
        Inl f \<Rightarrow> Inl f
      | Inr (v, s1) \<Rightarrow>
          if i < unat (PADDR L v) div unat PGSIZE then
            (case page_init_reserve s1 i of
               Inl f \<Rightarrow> Inl f
             | Inr s2 \<Rightarrow> page_init_ext L (Suc i) s2)
          else Inr s1)"
  by pat_completeness auto
termination
proof (relation "measure (\<lambda>(L, i, s). boot_frontier L s - i)")
  show "wf (measure (\<lambda>(L, i, s). boot_frontier L s - i))"
    by simp
next
  fix L :: layout and i :: nat and s s1 s2 :: "('r::len) state" and x v
  assume b: "boot_alloc L s 0 = Inr x" and x: "(v, s1) = x"
    and lt: "i < unat (PADDR L v) div unat PGSIZE"
    and r: "page_init_reserve s1 i = Inr s2"
  have r0: "round_up 0 PGSIZE = 0"
    by (simp add: round_up_def PGSIZE_def)
  from b x have v: "v = boot_next L s" and n1: "nextfree s1 = boot_next L s"
    by (auto simp add: boot_alloc_def boot_next_def Let_def r0 split: if_splits)
  from r have "nextfree s2 = nextfree s1"
    by (auto simp add: page_init_reserve_def Let_def split: if_splits)
  then have "boot_next L s2 = boot_next L s"
    using n1 by (auto simp add: boot_next_def)
  then show "((L, Suc i, s2), (L, i, s)) \<in> measure (\<lambda>(L, i, s). boot_frontier L s - i)"
    using lt v by (simp add: boot_frontier_def)
qed

declare page_init_ext.simps [simp del]

definition page_init :: "layout \<Rightarrow> ('r::len) state \<Rightarrow> fault + 'r state" where
  "page_init L s =
     (case page_init_free 1 (s\<lparr>free_pages := None\<rparr>) of
        Inl f \<Rightarrow> Inl f
      | Inr s1 \<Rightarrow>
          (case page_init_reserve s1 0 of
             Inl f \<Rightarrow> Inl f
           | Inr s2 \<Rightarrow>
               (case page_init_hole (unat (IOPHYSMEM div PGSIZE)) (unat (EXTPHYSMEM div PGSIZE)) s2 of
                  Inl f \<Rightarrow> Inl f
                | Inr s3 \<Rightarrow> page_init_ext L (unat (EXTPHYSMEM div PGSIZE)) s3)))"

subsection \<open>Allocation of a mapped free page\<close>

text \<open>
  \<open>check_va2pa\<close>: the physical address that the directory maps \<open>va\<close> to, all ones
  when the directory entry or the table entry is not present.
\<close>

definition check_va2pa :: "(u32 \<Rightarrow> u32) \<Rightarrow> u32 \<Rightarrow> u32 \<Rightarrow> u32" where
  "check_va2pa m pgdir va =
     (let pde = m (pgdir + 4 * PDX va) in
      if pde AND PTE_P = 0 then NOT 0
      else let pte = m (PTE_ADDR pde + 4 * PTX va) in
           if pte AND PTE_P = 0 then NOT 0 else PTE_ADDR pte)"

text \<open>
  The inner loop of \<open>alloc_free_page\<close>: from \<open>pp1\<close>, follow the links to the
  descriptor whose link is \<open>pp0\<close>. \<open>Inr None\<close> is the loop's \<open>return NULL\<close>, at the end
  of the list. On a cyclic list that avoids \<open>pp0\<close> the loop does not return.
\<close>

partial_function (option) alloc_free_page_prev ::
  "('r::len) Page list \<Rightarrow> nat option \<Rightarrow> nat \<Rightarrow> (fault + nat option) option" where
  "alloc_free_page_prev ps pp1 pp0 =
     (case pp1 of
        None \<Rightarrow> Some (Inl NullPointer)
      | Some p \<Rightarrow>
          if p < length ps then
            if pp_next (ps ! p) \<noteq> Some pp0 then
              if pp_next (ps ! p) = None then Some (Inr None)
              else alloc_free_page_prev ps (pp_next (ps ! p)) pp0
            else Some (Inr (Some p))
          else Some (Inl OutOfRange))"

text \<open>
  The outer loop of \<open>alloc_free_page\<close>. The static \<open>freeptr\<close> is passed in and its new
  value is returned beside the result (\<open>None\<close> for NULL). The scan skips every page
  whose descriptor has a NULL link; \<open>freeptr + PGSIZE\<close> wraps to 0 past the last page,
  so that the loop need not come to its \<open>panic\<close>.
\<close>

partial_function (option) alloc_free_page_loop ::
  "('r::len) state \<Rightarrow> u32 \<Rightarrow> (fault + ((u32 option \<times> u32) \<times> 'r state)) option" where
  "alloc_free_page_loop s freeptr =
     (if freeptr \<le> 0xfffff000 then
        let pp0 = unat (check_va2pa (mem s) (kern_pgdir s) freeptr) div unat PGSIZE in
        if pp0 < length (pages s) then
          if pp_next (pages s ! pp0) = None then alloc_free_page_loop s (freeptr + PGSIZE)
          else if free_pages s = Some pp0 then
            Some (Inr ((Some freeptr, freeptr + PGSIZE),
                       s\<lparr>pages := (pages s)[pp0 := (pages s ! pp0)
                            \<lparr>pp_ref := pp_ref (pages s ! pp0) + 1, pp_next := None\<rparr>]\<rparr>))
          else
            (case alloc_free_page_prev (pages s) (free_pages s) pp0 of
               None \<Rightarrow> None
             | Some (Inl f) \<Rightarrow> Some (Inl f)
             | Some (Inr None) \<Rightarrow> Some (Inr ((None, freeptr), s))
             | Some (Inr (Some pp1)) \<Rightarrow>
                 let ps1 = (pages s)[pp0 := (pages s ! pp0)
                             \<lparr>pp_ref := pp_ref (pages s ! pp0) + 1\<rparr>];
                     ps2 = ps1[pp1 := (ps1 ! pp1)\<lparr>pp_next := pp_next (ps1 ! pp0)\<rparr>];
                     ps3 = ps2[pp0 := (ps2 ! pp0)\<lparr>pp_next := None\<rparr>]
                 in Some (Inr ((Some freeptr, freeptr + PGSIZE),
                               s\<lparr>mem := memset_page (mem s) (physaddr pp0) 0, pages := ps3\<rparr>)))
        else Some (Inl OutOfRange)
      else Some (Inl Panic))"

text \<open>\<open>alloc_free_page\<close>: the first call starts the scan at \<open>boot_alloc(0)\<close>.\<close>

definition alloc_free_page ::
  "layout \<Rightarrow> ('r::len) state \<Rightarrow> u32 \<Rightarrow> (fault + ((u32 option \<times> u32) \<times> 'r state)) option" where
  "alloc_free_page L s freeptr =
     (if freeptr = 0 then
        (case boot_alloc L s 0 of
           Inl f \<Rightarrow> Some (Inl f)
         | Inr (v, s1) \<Rightarrow> alloc_free_page_loop s1 v)
      else alloc_free_page_loop s freeptr)"

subsection \<open>The free list as a list\<close>

text \<open>
  \<open>free_walk n ps p\<close> follows the links from the pointer \<open>p\<close> for at most \<open>n\<close> steps and
  lists the descriptors visited. A registry of \<open>n\<close> descriptors has every descriptor
  reachable from the head among the first \<open>n\<close> visited, so \<open>free_list\<close> holds exactly the
  frames reachable from the free-list head.
\<close>

fun free_walk :: "nat \<Rightarrow> ('r::len) Page list \<Rightarrow> nat option \<Rightarrow> nat list" where
  "free_walk 0 ps p = []"
| "free_walk (Suc n) ps None = []"
| "free_walk (Suc n) ps (Some i) =
     (if i < length ps then i # free_walk n ps (pp_next (ps ! i)) else [])"

definition free_list :: "('r::len) state \<Rightarrow> nat list" where
  "free_list s = free_walk (length (pages s)) (pages s) (free_pages s)"

text \<open>The links from \<open>p\<close> run through exactly the descriptors \<open>xs\<close> and end in NULL.\<close>

fun is_list :: "('r::len) Page list \<Rightarrow> nat option \<Rightarrow> nat list \<Rightarrow> bool" where
  "is_list ps p [] = (p = None)"
| "is_list ps p (x # xs) = (p = Some x \<and> x < length ps \<and> is_list ps (pp_next (ps ! x)) xs)"

text \<open>
  The free list is well formed: it ends in NULL, no frame is on it twice, and every
  frame on it has reference count 0.
\<close>

definition free_list_ok :: "('r::len) state \<Rightarrow> bool" where
  "free_list_ok s =
     (is_list (pages s) (free_pages s) (free_list s) \<and> distinct (free_list s) \<and>
      (\<forall>F\<in>set (free_list s). pp_ref (pages s ! F) = 0))"




subsection \<open>Addresses of directory and table entries\<close>

text \<open>
  \<open>pde_addr\<close> is the address of the directory entry governing \<open>va\<close>
  (\<open>&pgdir[PDX(va)]\<close>), \<open>pte_addr\<close> the address of the table entry that the directory
  entry leads to (\<open>&pt[PTX(va)]\<close>), as \<open>pgdir_walk\<close> computes them.
\<close>

definition pde_addr :: "u32 \<Rightarrow> u32 \<Rightarrow> u32" where
  "pde_addr pgdir va = pgdir + 4 * PDX va"

definition pte_addr :: "(u32 \<Rightarrow> u32) \<Rightarrow> u32 \<Rightarrow> u32 \<Rightarrow> u32" where
  "pte_addr m pgdir va = PTE_ADDR (m (pde_addr pgdir va)) + 4 * PTX va"

text \<open>
  A directory is set apart from the pages that an operation at \<open>va\<close> clears or fills:
  the directory entry for \<open>va\<close> lies neither in the page table it points to nor in the
  frame mapped at \<open>va\<close>, and where the entry is empty it does not lie in the frame at
  the head of the free list (the frame the next page table is made of).
\<close>

definition dir_apart :: "('r::len) state \<Rightarrow> u32 \<Rightarrow> u32 \<Rightarrow> bool" where
  "dir_apart s pgdir va =
     (let pde = pde_addr pgdir va in
      if mem s pde = 0 then
        (case free_pages s of None \<Rightarrow> True | Some T \<Rightarrow> \<not> (pde - physaddr T < PGSIZE))
      else
        \<not> (pde - PTE_ADDR (mem s pde) < PGSIZE) \<and>
        (let e = mem s (pte_addr (mem s) pgdir va) in e = 0 \<or> \<not> (pde - PTE_ADDR e < PGSIZE)))"


subsection \<open>Example states\<close>

text \<open>
  A machine of eight frames: frame 0 is reserved, frame 1 holds the (empty) kernel
  directory, frames 4, 3, 2 form the free list, and frames 5 to 7 have been handed
  out and are not yet referenced.
\<close>

definition ex_layout :: layout where
  "ex_layout = \<lparr>KERNBASE = 0xF0000000, kern_end = 0xF0102000\<rparr>"

definition ex_state :: "16 state" where
  "ex_state =
     \<lparr>npages = 8, n_base_pages = 8, kern_pgdir = 0x1000,
      pages = [\<lparr>pp_next = None, pp_ref = 1\<rparr>, \<lparr>pp_next = None, pp_ref = 1\<rparr>,
               \<lparr>pp_next = None, pp_ref = 0\<rparr>, \<lparr>pp_next = Some 2, pp_ref = 0\<rparr>,
               \<lparr>pp_next = Some 3, pp_ref = 0\<rparr>, \<lparr>pp_next = None, pp_ref = 0\<rparr>,
               \<lparr>pp_next = None, pp_ref = 0\<rparr>, \<lparr>pp_next = None, pp_ref = 0\<rparr>],
      free_pages = Some 4, nextfree = 0, mem = (\<lambda>a. 0), tlb = []\<rparr>"


section \<open>Properties\<close>

subsection \<open>Address arithmetic\<close>




lemma PTE_ADDR_shift: "PTE_ADDR x = push_bit 12 (drop_bit 12 x)"
  unfolding PTE_ADDR_def by (rule bit_word_eqI) (auto simp add: bit_simps)

lemma physaddr_frame: "physaddr (unat (PTE_ADDR x) div unat PGSIZE) = PTE_ADDR x"
proof -
  have "unat (PTE_ADDR x) div unat PGSIZE = unat (drop_bit 12 (PTE_ADDR x))"
    by (simp add: unat_drop_bit_eq drop_bit_eq_div PGSIZE_def unat_div)
  also have "drop_bit 12 (PTE_ADDR x) = drop_bit 12 x"
    unfolding PTE_ADDR_def by (rule bit_word_eqI) (auto simp add: bit_simps dest: bit_imp_le_length)
  finally show ?thesis by (simp add: physaddr_def PTE_ADDR_shift)
qed

lemma PTE_ADDR_physaddr: "PTE_ADDR (physaddr p) = physaddr p"
  unfolding PTE_ADDR_def physaddr_def
  by (rule bit_word_eqI) (auto simp add: bit_simps)


lemma PTE_ADDR_or: "PTE_ADDR (a OR b) = PTE_ADDR a OR PTE_ADDR b"
  unfolding PTE_ADDR_def by (rule bit_word_eqI) (auto simp add: bit_simps)

lemma PTE_ADDR_PTE_P: "PTE_ADDR PTE_P = 0"
  unfolding PTE_ADDR_def PTE_P_def by (rule bit_word_eqI) (auto simp add: bit_simps)

lemma PTE_ADDR_entry: "PTE_ADDR perm = 0 \<Longrightarrow> PTE_ADDR (physaddr p OR perm OR PTE_P) = physaddr p"
  by (simp add: PTE_ADDR_or PTE_ADDR_physaddr PTE_ADDR_PTE_P)

lemma entry_nonzero: "a OR b OR PTE_P \<noteq> 0"
  by (simp add: or_eq_0_iff PTE_P_def)

lemma PTE_ADDR_PTX: "PTE_ADDR (4 * PTX va) = 0"
proof -
  have "4 * PTX va = push_bit 2 (take_bit 10 (drop_bit 12 va))"
    by (simp add: PTX_def push_bit_eq_mult take_bit_eq_mask)
  then show ?thesis
    unfolding PTE_ADDR_def by (simp, intro bit_word_eqI) (auto simp add: bit_simps)
qed

lemma PTX_offset_less: "4 * PTX va < PGSIZE"
proof -
  have "4 * PTX va = push_bit 2 (take_bit 10 (drop_bit 12 va))"
    by (simp add: PTX_def push_bit_eq_mult take_bit_eq_mask)
  also have "\<dots> = take_bit 12 (push_bit 2 (drop_bit 12 va))"
    by (rule bit_word_eqI) (auto simp add: bit_simps)
  finally have "4 * PTX va = take_bit 12 (push_bit 2 (drop_bit 12 va))" .
  moreover have "take_bit 12 (push_bit 2 (drop_bit 12 va)) < (2 ^ 12 :: u32)"
    using and_mask_less_size [of 12 "push_bit 2 (drop_bit 12 va)"]
    by (simp add: take_bit_eq_mask word_size)
  ultimately show ?thesis by (simp add: PGSIZE_def)
qed

lemma pte_in_table: "(base + 4 * PTX va) - base < PGSIZE"
  using PTX_offset_less by simp

lemma pte_addr_neq: "\<not> (a - base < PGSIZE) \<Longrightarrow> base + 4 * PTX va \<noteq> a"
  using pte_in_table by blast


subsection \<open>Effects of the operations\<close>

lemma pgdir_walk_nocreate:
  "pgdir_walk s pgdir va False =
     Inr (if mem s (pde_addr pgdir va) = 0 then None else Some (pte_addr (mem s) pgdir va), s)"
  by (simp add: pgdir_walk_def pde_addr_def pte_addr_def Let_def)

lemma page_lookup_store:
  "page_lookup s pgdir va True =
     Inr (if mem s (pde_addr pgdir va) = 0 then (None, None)
          else if mem s (pte_addr (mem s) pgdir va) = 0
               then (None, Some (pte_addr (mem s) pgdir va))
               else (Some (unat (PTE_ADDR (mem s (pte_addr (mem s) pgdir va))) div unat PGSIZE),
                     Some (pte_addr (mem s) pgdir va)), s)"
  by (simp add: page_lookup_def pgdir_walk_nocreate)

lemma page_remove_unmapped:
  "mem s (pde_addr pgdir va) = 0 \<or> mem s (pte_addr (mem s) pgdir va) = 0 \<Longrightarrow>
   page_remove s pgdir va = Inr s"
  by (auto simp add: page_remove_def page_lookup_store)

lemma page_remove_mapped:
  "mem s (pde_addr pgdir va) \<noteq> 0 \<Longrightarrow> mem s (pte_addr (mem s) pgdir va) \<noteq> 0 \<Longrightarrow>
   page_remove s pgdir va =
     (case page_decref s (unat (PTE_ADDR (mem s (pte_addr (mem s) pgdir va))) div unat PGSIZE) of
        Inl f \<Rightarrow> Inl f
      | Inr s2 \<Rightarrow> Inr (s2\<lparr>mem := (mem s2)(pte_addr (mem s) pgdir va := 0), tlb := tlb s2 @ [va]\<rparr>))"
  by (simp add: page_remove_def page_lookup_store tlb_invalidate_def split: sum.splits)

lemma page_free_mem:
  "page_free s pp = Inr s' \<Longrightarrow> \<not> (a - physaddr pp < PGSIZE) \<Longrightarrow> mem s' a = mem s a"
  by (auto simp add: page_free_def memset_page_def split: if_splits)

lemma page_free_tlb: "page_free s pp = Inr s' \<Longrightarrow> tlb s' = tlb s"
  by (auto simp add: page_free_def split: if_splits)

lemma page_decref_mem:
  "page_decref s pp = Inr s' \<Longrightarrow> \<not> (a - physaddr pp < PGSIZE) \<Longrightarrow> mem s' a = mem s a"
  by (auto simp add: page_decref_def Let_def dest: page_free_mem split: if_splits)

lemma page_decref_tlb: "page_decref s pp = Inr s' \<Longrightarrow> tlb s' = tlb s"
  by (auto simp add: page_decref_def Let_def dest: page_free_tlb split: if_splits)

lemma pp_ref_inc_mem: "pp_ref_inc s pp = Inr s' \<Longrightarrow> mem s' = mem s \<and> tlb s' = tlb s \<and> free_pages s' = free_pages s"
  by (auto simp add: pp_ref_inc_def split: if_splits)


lemma aligned_low_disjoint: "PTE_ADDR a = a \<Longrightarrow> PTE_ADDR b = 0 \<Longrightarrow> a AND b = 0"
proof -
  assume a: "PTE_ADDR a = a" and b: "PTE_ADDR b = 0"
  have "a AND b = (a AND NOT (mask 12)) AND b"
    using a by (simp add: PTE_ADDR_def)
  also have "\<dots> = a AND (b AND NOT (mask 12))"
    by (simp add: ac_simps)
  also have "\<dots> = 0"
    using b by (simp add: PTE_ADDR_def)
  finally show ?thesis .
qed

lemma aligned_add_low: "PTE_ADDR a = a \<Longrightarrow> PTE_ADDR b = 0 \<Longrightarrow> a + b = a OR b"
  by (rule disjunctive_add_eq_or) (rule aligned_low_disjoint)

lemma PTE_ADDR_add_low: "PTE_ADDR a = a \<Longrightarrow> PTE_ADDR b = 0 \<Longrightarrow> PTE_ADDR (a + b) = a"
  by (simp add: aligned_add_low PTE_ADDR_or)

lemma PTE_ADDR_push_bit: "PTE_ADDR (push_bit 12 x) = push_bit 12 x"
  unfolding PTE_ADDR_def by (rule bit_word_eqI) (auto simp add: bit_simps)

lemma aligned_add: "PTE_ADDR a = a \<Longrightarrow> PTE_ADDR b = b \<Longrightarrow> PTE_ADDR (a + b) = a + b"
proof -
  assume "PTE_ADDR a = a" and "PTE_ADDR b = b"
  then have "a = push_bit 12 (drop_bit 12 a)" and "b = push_bit 12 (drop_bit 12 b)"
    by (simp_all add: PTE_ADDR_shift)
  then have "a + b = push_bit 12 (drop_bit 12 a + drop_bit 12 b)"
    by (simp add: push_bit_add)
  then show ?thesis
    by (metis PTE_ADDR_push_bit)
qed

lemma PADDR_KADDR_entry:
  assumes kb: "PTE_ADDR (KERNBASE L) = KERNBASE L" and perm: "PTE_ADDR perm = 0"
  shows "PADDR L (PTE_ADDR (KADDR L (physaddr T + 4 * PTX va)) OR perm OR PTE_P)
         = physaddr T OR perm OR PTE_P"
proof -
  let ?k = "KERNBASE L" and ?p = "perm OR PTE_P"
  have al: "PTE_ADDR (physaddr T + ?k) = physaddr T + ?k"
    using kb by (simp add: aligned_add PTE_ADDR_physaddr)
  have low: "PTE_ADDR ?p = 0"
    using perm by (simp add: PTE_ADDR_or PTE_ADDR_PTE_P)
  have "KADDR L (physaddr T + 4 * PTX va) = (physaddr T + ?k) + 4 * PTX va"
    by (simp add: KADDR_def)
  then have "PTE_ADDR (KADDR L (physaddr T + 4 * PTX va)) = physaddr T + ?k"
    using al by (simp add: PTE_ADDR_add_low PTE_ADDR_PTX)
  then have "PTE_ADDR (KADDR L (physaddr T + 4 * PTX va)) OR perm OR PTE_P = (physaddr T + ?k) + ?p"
    using al low by (simp add: aligned_add_low or.assoc)
  then have "PADDR L (PTE_ADDR (KADDR L (physaddr T + 4 * PTX va)) OR perm OR PTE_P) = physaddr T + ?p"
    by (simp add: PADDR_def)
  also have "\<dots> = physaddr T OR ?p"
    using low by (simp add: aligned_add_low PTE_ADDR_physaddr)
  finally show ?thesis by (simp add: or.assoc)
qed

lemma PTE_ADDR_flags: "PTE_ADDR (physaddr T OR PTE_U OR PTE_W OR PTE_P) = physaddr T"
proof -
  have "PTE_ADDR (PTE_U OR PTE_W OR PTE_P) = 0"
    unfolding PTE_ADDR_def PTE_U_def PTE_W_def PTE_P_def by (simp add: mask_eq_exp_minus_1)
  then show ?thesis
    by (simp add: PTE_ADDR_or PTE_ADDR_physaddr or.assoc)
qed

lemma pgdir_walk_create:
  assumes "mem s (pde_addr pgdir va) = 0" "free_pages s = Some T" "T < length (pages s)"
  shows "pgdir_walk s pgdir va True =
     Inr (Some (physaddr T + 4 * PTX va),
          s\<lparr>mem := (memset_page (memset_page (mem s) (physaddr T) 0xCCCCCCCC) (physaddr T) 0)
                      (pde_addr pgdir va := physaddr T OR PTE_U OR PTE_W OR PTE_P),
            free_pages := pp_next (pages s ! T),
            pages := (pages s)[T := (pages s ! T)\<lparr>pp_ref := pp_ref (pages s ! T) + 1\<rparr>]\<rparr>)"
  using assms
  by (simp add: pgdir_walk_def page_alloc_def pp_ref_inc_def Let_def pde_addr_def PTE_ADDR_flags)

lemma pgdir_walk_create_oom:
  assumes "mem s (pde_addr pgdir va) = 0" "free_pages s = None"
  shows "pgdir_walk s pgdir va True = Inr (None, s)"
  using assms by (simp add: pgdir_walk_def page_alloc_def Let_def pde_addr_def)

lemma pgdir_walk_create_fault:
  assumes "mem s (pde_addr pgdir va) = 0" "free_pages s = Some T" "\<not> T < length (pages s)"
  shows "pgdir_walk s pgdir va True = Inl OutOfRange"
  using assms by (simp add: pgdir_walk_def page_alloc_def Let_def pde_addr_def)


lemma page_insert_set_maps:
  assumes "page_insert_set s (pde_addr pgdir va) pp va perm = Inr (r, s1)"
    and "mem s (pde_addr pgdir va) \<noteq> 0"
    and "\<not> (pde_addr pgdir va - PTE_ADDR (mem s (pde_addr pgdir va)) < PGSIZE)"
  shows "r = 0" and "mem s1 (pde_addr pgdir va) = mem s (pde_addr pgdir va)"
    and "mem s1 (pte_addr (mem s1) pgdir va) = physaddr pp OR perm OR PTE_P"
    and "pages s1 = pages s" and "tlb s1 = tlb s" and "free_pages s1 = free_pages s"
proof -
  have ne: "PTE_ADDR (mem s (pde_addr pgdir va)) + 4 * PTX va \<noteq> pde_addr pgdir va"
    using assms(3) by (rule pte_addr_neq)
  from assms(1) have s1: "s1 = s\<lparr>mem := (mem s)(PTE_ADDR (mem s (pde_addr pgdir va)) + 4 * PTX va
                                  := physaddr pp OR perm OR PTE_P)\<rparr>" and r: "r = 0"
    by (simp_all add: page_insert_set_def)
  show "r = 0" by (rule r)
  show keep: "mem s1 (pde_addr pgdir va) = mem s (pde_addr pgdir va)"
    using ne by (simp add: s1)
  show "mem s1 (pte_addr (mem s1) pgdir va) = physaddr pp OR perm OR PTE_P"
    unfolding pte_addr_def keep by (simp add: s1)
  show "pages s1 = pages s" "tlb s1 = tlb s" "free_pages s1 = free_pages s"
    by (simp_all add: s1)
qed

lemma page_remove_keeps_pde:
  assumes rm: "page_remove s pgdir va = Inr s'"
    and d: "mem s (pde_addr pgdir va) \<noteq> 0"
    and apart: "dir_apart s pgdir va"
  shows "mem s' (pde_addr pgdir va) = mem s (pde_addr pgdir va)"
proof (cases "mem s (pte_addr (mem s) pgdir va) = 0")
  case True
  then show ?thesis using rm by (simp add: page_remove_unmapped)
next
  case False
  let ?pde = "pde_addr pgdir va" and ?e = "mem s (pte_addr (mem s) pgdir va)"
  from apart d False have a1: "\<not> (?pde - PTE_ADDR (mem s ?pde) < PGSIZE)"
    and a2: "\<not> (?pde - PTE_ADDR ?e < PGSIZE)"
    by (simp_all add: dir_apart_def Let_def)
  from rm d False obtain s2 where
    dec: "page_decref s (unat (PTE_ADDR ?e) div unat PGSIZE) = Inr s2"
    and s': "s' = s2\<lparr>mem := (mem s2)(pte_addr (mem s) pgdir va := 0), tlb := tlb s2 @ [va]\<rparr>"
    by (auto simp add: page_remove_mapped split: sum.splits)
  have "mem s2 ?pde = mem s ?pde"
    using dec a2 by (auto intro: page_decref_mem simp add: physaddr_frame)
  moreover have "pte_addr (mem s) pgdir va \<noteq> ?pde"
    unfolding pte_addr_def using a1 by (rule pte_addr_neq)
  ultimately show ?thesis by (simp add: s')
qed

lemma page_insert_maps:
  assumes ins: "page_insert L s pgdir pp va perm = Inr (0, s1)"
    and apart: "dir_apart s pgdir va"
    and perm: "PTE_ADDR perm = 0"
    and kb: "PTE_ADDR (KERNBASE L) = KERNBASE L"
  shows "mem s1 (pde_addr pgdir va) \<noteq> 0
       \<and> mem s1 (pte_addr (mem s1) pgdir va) = physaddr pp OR perm OR PTE_P
       \<and> \<not> (pde_addr pgdir va - PTE_ADDR (mem s1 (pde_addr pgdir va)) < PGSIZE)"
proof (cases "mem s (pde_addr pgdir va) = 0")
  case False
  let ?pde = "pde_addr pgdir va"
  from apart False have a1: "\<not> (?pde - PTE_ADDR (mem s ?pde) < PGSIZE)"
    by (simp add: dir_apart_def Let_def)
  from ins False obtain s' where
    set: "page_insert_set s' ?pde pp va perm = Inr (0, s1)"
    and cases: "s' = s \<or> pp_ref_inc s pp = Inr s'
                \<or> (\<exists>s0. page_remove s pgdir va = Inr s0 \<and> pp_ref_inc s0 pp = Inr s')"
    by (auto simp add: page_insert_def pgdir_walk_nocreate Let_def pde_addr_def
             split: if_splits sum.splits)
  from cases have keep: "mem s' ?pde = mem s ?pde"
    using page_remove_keeps_pde [OF _ False apart]
    by (auto dest!: pp_ref_inc_mem)
  show ?thesis
    using page_insert_set_maps [OF set] False a1 by (simp add: keep)
next
  case True
  let ?pde = "pde_addr pgdir va"
  show ?thesis
  proof (cases "free_pages s")
    case None
    then show ?thesis
      using ins True
      by (simp add: page_insert_def pgdir_walk_nocreate pgdir_walk_create_oom Let_def E_NO_MEM_def)
  next
    case (Some T)
    show ?thesis
    proof (cases "T < length (pages s)")
      case False
      then show ?thesis
        using ins True Some
        by (simp add: page_insert_def pgdir_walk_nocreate pgdir_walk_create_fault Let_def)
    next
      case inrange: True
      from apart True Some have a: "\<not> (?pde - physaddr T < PGSIZE)"
        by (simp add: dir_apart_def Let_def)
      from ins True Some inrange obtain s' where
        set: "page_insert_set s' ?pde pp va perm = Inr (0, s1)"
        and pde': "mem s' ?pde = physaddr T OR perm OR PTE_P"
        by (auto simp add: page_insert_def pgdir_walk_nocreate pgdir_walk_create Let_def
                 PADDR_KADDR_entry [OF kb perm] pde_addr_def
                 split: sum.splits dest!: pp_ref_inc_mem)
      have "PTE_ADDR (mem s' ?pde) = physaddr T"
        using perm by (simp add: pde' PTE_ADDR_entry)
      then show ?thesis
        using page_insert_set_maps [OF set] a by (simp add: pde' entry_nonzero)
    qed
  qed
qed

lemma page_free_length: "page_free s pp = Inr s' \<Longrightarrow> length (pages s') = length (pages s)"
  by (auto simp add: page_free_def split: if_splits)

lemma page_decref_length: "page_decref s pp = Inr s' \<Longrightarrow> length (pages s') = length (pages s)"
  by (auto simp add: page_decref_def Let_def dest: page_free_length split: if_splits)

lemma page_decref_ok: "pp < length (pages s) \<Longrightarrow> \<exists>s'. page_decref s pp = Inr s'"
  by (simp add: page_decref_def page_free_def Let_def)


lemma page_remove_length: "page_remove s pgdir va = Inr s' \<Longrightarrow> length (pages s') = length (pages s)"
  by (auto simp add: page_remove_def page_lookup_store tlb_invalidate_def
           split: sum.splits if_splits option.splits dest: page_decref_length)







subsection \<open>Rounding and table indices\<close>

lemma unat_round_up: "unat (round_up a PGSIZE) = (unat (a + PGSIZE - 1) div 4096) * 4096"
proof -
  define x where "x = a + PGSIZE - 1"
  have "unat (round_up a PGSIZE) = unat (x - x mod 4096)"
    by (simp add: round_up_def x_def PGSIZE_def)
  also have "\<dots> = unat x - unat (x mod 4096)"
    by (rule unat_sub) (simp add: word_le_nat_alt unat_mod_distrib)
  also have "\<dots> = unat x - unat x mod 4096"
    by (simp add: unat_mod_distrib)
  also have "\<dots> = (unat x div 4096) * 4096"
    by (simp add: minus_mod_eq_div_mult)
  finally show ?thesis by (simp add: x_def)
qed

lemma round_up_idem: "round_up (round_up a PGSIZE) PGSIZE = round_up a PGSIZE"
proof -
  define k where "k = unat (a + PGSIZE - 1) div 4096"
  define y where "y = round_up a PGSIZE"
  have y: "unat y = k * 4096"
    by (simp add: y_def k_def unat_round_up)
  have "unat (a + PGSIZE - 1) < 2 ^ 32"
    using unsigned_less [of "a + PGSIZE - 1", where ?'a = nat] by simp
  then have k: "k < 2 ^ 20"
    by (simp add: k_def)
  have u: "unat (4095 :: u32) = 4095"
    by simp
  have "unat y + unat (4095 :: u32) < 2 ^ LENGTH(32)"
    using k by (simp add: y)
  then have "unat (y + 4095) = unat y + unat (4095 :: u32)"
    by (simp only: unat_add_lem)
  then have "unat (y + 4095) = k * 4096 + 4095"
    by (simp only: u y)
  moreover have e: "y + PGSIZE - 1 = y + 4095"
    by (simp add: PGSIZE_def)
  ultimately have "unat (y + PGSIZE - 1) = k * 4096 + 4095"
    by (simp only: e)
  then have "unat (round_up y PGSIZE) = k * 4096"
    by (simp add: unat_round_up)
  then show ?thesis
    unfolding y_def [symmetric] using y by (simp add: word_unat_eq_iff)
qed












subsection \<open>Initialisation\<close>












lemma boot_next_idem: "boot_next L (s\<lparr>nextfree := boot_next L s\<rparr>) = boot_next L s"
  by (simp add: boot_next_def)







subsection \<open>The free list\<close>










lemma free_list_mem [simp]: "free_list (s\<lparr>mem := m\<rparr>) = free_list s"
  by (simp add: free_list_def)

lemma free_list_tlb [simp]: "free_list (s\<lparr>tlb := t\<rparr>) = free_list s"
  by (simp add: free_list_def)

lemma free_list_ok_mem [simp]: "free_list_ok (s\<lparr>mem := m\<rparr>) = free_list_ok s"
  by (simp add: free_list_ok_def)

lemma free_list_ok_tlb [simp]: "free_list_ok (s\<lparr>tlb := t\<rparr>) = free_list_ok s"
  by (simp add: free_list_ok_def)
















subsection \<open>Re-insertion and replacement\<close>

lemma page_insert_same_frame:
  assumes "mem s (pde_addr pgdir A) \<noteq> 0"
    and "PTE_ADDR (mem s (pte_addr (mem s) pgdir A)) = physaddr F"
  shows "page_insert L s pgdir F A perm =
           Inr (0, s\<lparr>mem := (mem s)(pte_addr (mem s) pgdir A := physaddr F OR perm OR PTE_P)\<rparr>)"
  using assms
  by (simp add: page_insert_def pgdir_walk_nocreate Let_def page_insert_set_def pte_addr_def
        pde_addr_def)

lemma page_decref_pages:
  assumes "page_decref s G = Inr s'"
  shows "pp_ref (pages s' ! G) = pp_ref (pages s ! G) - 1"
    and "\<And>i. i \<noteq> G \<Longrightarrow> pages s' ! i = pages s ! i"
  using assms
  by (auto simp add: page_decref_def page_free_def Let_def split: if_splits)

lemma page_insert_replace:
  fixes s :: "('r::len) state"
  assumes G_def: "G = unat (PTE_ADDR (mem s (pte_addr (mem s) pgdir A))) div unat PGSIZE"
    and d: "mem s (pde_addr pgdir A) \<noteq> 0"
    and mapped: "PTE_ADDR (mem s (pte_addr (mem s) pgdir A)) \<noteq> 0"
    and diff: "PTE_ADDR (mem s (pte_addr (mem s) pgdir A)) \<noteq> physaddr F"
    and G: "G < length (pages s)" and F: "F < length (pages s)"
    and apart: "dir_apart s pgdir A"
  shows "\<exists>s1. page_insert L s pgdir F A perm = Inr (0, s1)
       \<and> pp_ref (pages s1 ! G) = pp_ref (pages s ! G) - 1
       \<and> pp_ref (pages s1 ! F) = pp_ref (pages s ! F) + 1
       \<and> mem s1 (pte_addr (mem s1) pgdir A) = physaddr F OR perm OR PTE_P
       \<and> tlb s1 = tlb s @ [A]"
proof -
  let ?pde = "pde_addr pgdir A" and ?slot = "pte_addr (mem s) pgdir A"
  have e: "mem s ?slot \<noteq> 0"
    using mapped by (auto simp add: PTE_ADDR_def)
  have "physaddr G \<noteq> physaddr F"
    using diff by (simp add: G_def physaddr_frame)
  then have FG: "F \<noteq> G" by auto
  obtain s2 where dec: "page_decref s G = Inr s2"
    using page_decref_ok [OF G] by blast
  define s3 where "s3 = s2\<lparr>mem := (mem s2)(?slot := 0), tlb := tlb s2 @ [A]\<rparr>"
  have rm: "page_remove s pgdir A = Inr s3"
    using d e dec by (simp add: page_remove_mapped G_def s3_def)
  have len3: "length (pages s3) = length (pages s)"
    using rm by (rule page_remove_length)
  have pg3: "pages s3 = pages s2" and tlb3: "tlb s3 = tlb s @ [A]"
    using page_decref_tlb [OF dec] by (simp_all add: s3_def)
  define s4 where
    "s4 = s3\<lparr>pages := (pages s3)[F := (pages s3 ! F)\<lparr>pp_ref := pp_ref (pages s3 ! F) + 1\<rparr>]\<rparr>"
  have inc: "pp_ref_inc s3 F = Inr s4"
    using F len3 by (simp add: pp_ref_inc_def s4_def)
  have keep: "mem s4 ?pde = mem s ?pde"
    using page_remove_keeps_pde [OF rm d apart] by (simp add: s4_def)
  from apart d have a1: "\<not> (?pde - PTE_ADDR (mem s ?pde) < PGSIZE)"
    by (simp add: dir_apart_def Let_def)
  obtain r s1 where set: "page_insert_set s4 ?pde F A perm = Inr (r, s1)"
    by (simp add: page_insert_set_def)
  from page_insert_set_maps [OF set] d a1 keep
  have r: "r = 0" and m1: "mem s1 (pte_addr (mem s1) pgdir A) = physaddr F OR perm OR PTE_P"
    and pg1: "pages s1 = pages s4" and tlb1: "tlb s1 = tlb s4"
    by simp_all
  have ins: "page_insert L s pgdir F A perm = Inr (0, s1)"
    using d mapped diff rm inc set r
    by (simp add: page_insert_def pgdir_walk_nocreate Let_def pde_addr_def)
  have "pp_ref (pages s1 ! G) = pp_ref (pages s ! G) - 1"
    using FG F len3 page_decref_pages(1) [OF dec] by (simp add: pg1 s4_def pg3)
  moreover have "pp_ref (pages s1 ! F) = pp_ref (pages s ! F) + 1"
    using FG F len3 page_decref_pages(2) [OF dec, of F] by (simp add: pg1 s4_def pg3)
  moreover have "tlb s1 = tlb s @ [A]"
    by (simp add: tlb1 s4_def tlb3)
  ultimately show ?thesis
    using ins m1 by blast
qed

text \<open>The definitions unfolded to run the operations on an example state.\<close>

lemmas ex_eval = page_insert_def pgdir_walk_def page_alloc_def pp_ref_inc_def page_insert_set_def
  page_remove_def page_lookup_def page_decref_def page_free_def tlb_invalidate_def
  ex_state_def ex_layout_def PDX_def PTX_def PTE_ADDR_def KADDR_def PADDR_def physaddr_def
  memset_page_def PGSIZE_def PTE_P_def PTE_W_def PTE_U_def Let_def pde_addr_def pte_addr_def
  dir_apart_def E_NO_MEM_def mask_eq_exp_minus_1

subsection \<open>The allocator of mapped pages\<close>

text \<open>
  When the page under \<open>freeptr\<close> is the head of the free list, \<open>alloc_free_page\<close>
  counts a reference on it and clears its link but leaves \<open>free_pages\<close> pointing at
  it: the frame handed out is still the head of the free list, with a count of 1, and
  the frames behind it are off the list. In the example the directory maps
  \<open>0xF0400000\<close> to frame 4, the head of the list 4, 3, 2.
\<close>

lemma alloc_free_page_keeps_head:
  "\<exists>s'. alloc_free_page ex_layout
            (ex_state\<lparr>mem := (mem ex_state)(0x1F04 := 0x5007, 0x5000 := 0x4003)\<rparr>) 0xF0400000
          = Some (Inr ((Some 0xF0400000, 0xF0401000), s'))
        \<and> free_list ex_state = [4, 3, 2] \<and> free_list_ok ex_state
        \<and> free_pages s' = Some 4 \<and> free_list s' = [4] \<and> pp_ref (pages s' ! 4) = 1
        \<and> \<not> free_list_ok s'"
  by (simp add: alloc_free_page_def alloc_free_page_loop.simps check_va2pa_def ex_eval
        free_list_def free_list_ok_def)

subsection \<open>Claims\<close>

text \<open>
  C10: \<open>page_lookup\<close> called with a null \<open>pte_store\<close> returns NULL, whatever is
  mapped at the address; it never faults, stores nothing and leaves the state as it is.
  Whenever \<open>page_lookup\<close> returns a frame, it was called with a non-null \<open>pte_store\<close>.
\<close>

theorem page_lookup_null_store:
  "page_lookup s pgdir va False = Inr ((None, None), s)
   \<and> (page_lookup s pgdir va pte_store = Inr ((Some F, p), s') \<longrightarrow> pte_store)"
  by (cases pte_store) (simp_all add: page_lookup_def pgdir_walk_def Let_def)

theorem page_lookup_null_store_witness:
  "page_lookup (ex_state\<lparr>mem := (mem ex_state)(0x1004 := 0x4007, 0x4000 := 0x5003)\<rparr>)
      0x1000 0x400000 False
     = Inr ((None, None), ex_state\<lparr>mem := (mem ex_state)(0x1004 := 0x4007, 0x4000 := 0x5003)\<rparr>)
   \<and> page_lookup (ex_state\<lparr>mem := (mem ex_state)(0x1004 := 0x4007, 0x4000 := 0x5003)\<rparr>)
      0x1000 0x400000 True
     = Inr ((Some 5, Some 0x4000),
            ex_state\<lparr>mem := (mem ex_state)(0x1004 := 0x4007, 0x4000 := 0x5003)\<rparr>)"
  using page_lookup_null_store
    [of "ex_state\<lparr>mem := (mem ex_state)(0x1004 := 0x4007, 0x4000 := 0x5003)\<rparr>"
        "0x1000" "0x400000" True 5 "Some 0x4000"
        "ex_state\<lparr>mem := (mem ex_state)(0x1004 := 0x4007, 0x4000 := 0x5003)\<rparr>"]
  by (simp add: ex_eval)



text \<open>
  C3: \<open>page_insert\<close> is idempotent with respect to reference counts. After a successful
  \<open>page_insert\<close> of \<open>F\<close> at \<open>A\<close>, a second \<open>page_insert\<close> of \<open>F\<close> at \<open>A\<close>, with any
  permissions, succeeds and leaves the reference count of \<open>F\<close> (the whole registry and
  the free list) as the first call left it; only the entry for \<open>A\<close> is rewritten, with
  the new permissions.
\<close>

theorem page_insert_again:
  assumes ins: "page_insert L s pgdir F A perm = Inr (0, s1)"
    and apart: "dir_apart s pgdir A"
    and perm: "PTE_ADDR perm = 0"
    and kb: "PTE_ADDR (KERNBASE L) = KERNBASE L"
  shows "\<exists>s2. page_insert L s1 pgdir F A perm' = Inr (0, s2)
            \<and> pp_ref (pages s2 ! F) = pp_ref (pages s1 ! F)
            \<and> pages s2 = pages s1 \<and> free_pages s2 = free_pages s1
            \<and> (\<forall>a. a \<noteq> pte_addr (mem s1) pgdir A \<longrightarrow> mem s2 a = mem s1 a)
            \<and> mem s2 (pte_addr (mem s1) pgdir A) = physaddr F OR perm' OR PTE_P"
proof -
  let ?pde = "pde_addr pgdir A" and ?slot = "pte_addr (mem s1) pgdir A"
  from page_insert_maps [OF ins apart perm kb]
  have d: "mem s1 ?pde \<noteq> 0" and e: "mem s1 ?slot = physaddr F OR perm OR PTE_P"
    by simp_all
  have same: "PTE_ADDR (mem s1 ?slot) = physaddr F"
    using perm by (simp add: e PTE_ADDR_entry)
  have "page_insert L s1 pgdir F A perm' = page_insert_set s1 ?pde F A perm'"
    using d same by (simp add: page_insert_def pgdir_walk_nocreate Let_def pde_addr_def)
  then show ?thesis
    by (simp add: page_insert_set_def pte_addr_def)
qed

theorem page_insert_again_witness:
  "\<exists>s1 s2. page_insert ex_layout ex_state 0x1000 5 0x400000 PTE_P = Inr (0, s1)
       \<and> page_insert ex_layout s1 0x1000 5 0x400000 PTE_W = Inr (0, s2)
       \<and> pp_ref (pages s2 ! 5) = pp_ref (pages s1 ! 5)
       \<and> pp_ref (pages s1 ! 5) = 1"
proof -
  obtain s1 where ins: "page_insert ex_layout ex_state 0x1000 5 0x400000 PTE_P = Inr (0, s1)"
    and r: "pp_ref (pages s1 ! 5) = 1"
    by (simp add: ex_eval)
  have apart: "dir_apart ex_state 0x1000 0x400000"
    by (simp add: ex_eval)
  have perm: "PTE_ADDR PTE_P = 0" and kb: "PTE_ADDR (KERNBASE ex_layout) = KERNBASE ex_layout"
    by (simp_all add: ex_eval)
  from page_insert_again [OF ins apart perm kb, of PTE_W] ins r show ?thesis
    by blast
qed

text \<open>
  C4: replacing the frame mapped at \<open>A\<close> releases the old frame. On the example machine
  frame 0 is inserted at \<open>A\<close> (its count becomes 2 and \<open>page_lookup\<close> reports it), then
  frame 5 is inserted at \<open>A\<close>: \<open>page_insert\<close> tests the address bits of the old entry,
  which are 0 for frame 0, so \<open>page_remove\<close> is not called. The count of frame 0 stays 2
  and no translation is invalidated, while frame 5 is mapped and counted once.
\<close>

theorem page_insert_frame0_not_released:
  "\<exists>s1 s2. page_insert ex_layout ex_state 0x1000 0 0x400000 PTE_W = Inr (0, s1)
     \<and> page_lookup s1 0x1000 0x400000 True = Inr ((Some 0, Some 0x4000), s1)
     \<and> page_insert ex_layout s1 0x1000 5 0x400000 PTE_W = Inr (0, s2)
     \<and> page_lookup s2 0x1000 0x400000 True = Inr ((Some 5, Some 0x4000), s2)
     \<and> pp_ref (pages s1 ! 0) = 2 \<and> pp_ref (pages s2 ! 0) = 2
     \<and> pp_ref (pages s1 ! 5) = 0 \<and> pp_ref (pages s2 ! 5) = 1
     \<and> tlb s2 = []"
  by (simp add: ex_eval)

text \<open>
  C5: \<open>page_map\<close> reports out-of-memory. With a single free frame and no page table for
  the address, \<open>page_alloc\<close> succeeds, \<open>page_insert\<close> returns \<open>-E_NO_MEM\<close> for want of a
  frame for the page table, and \<open>page_map\<close> still returns 0: nothing is mapped and the
  allocated frame is left off the free list with count 0.
\<close>

theorem page_map_ignores_insert_failure:
  "\<exists>s1 s2 s3. page_alloc (ex_state\<lparr>free_pages := Some 2\<rparr>) = Inr (Some 2, s1)
     \<and> page_insert ex_layout (s1\<lparr>mem := memset_page (mem s1) (physaddr 2) 0\<rparr>) (kern_pgdir s1) 2
          0x400000 PTE_W = Inr (- E_NO_MEM, s2)
     \<and> page_map ex_layout (ex_state\<lparr>free_pages := Some 2\<rparr>) 0x400000 PTE_W = Inr (0, s3)
     \<and> page_lookup s3 (kern_pgdir s3) 0x400000 True = Inr ((None, None), s3)
     \<and> free_pages s3 = None \<and> pp_ref (pages s3 ! 2) = 0"
  by (simp add: ex_eval page_map_def)

text \<open>
  C6: a successful \<open>page_insert\<close> at an address that was mapped invalidates the
  translation cache. On the example machine frame 5 is inserted at \<open>A\<close> read-only and
  then again with write permission: the entry changes, and \<open>invlpg\<close> is never called.
\<close>

theorem page_insert_same_frame_no_invalidate:
  "\<exists>s1 s2. page_insert ex_layout ex_state 0x1000 5 0x400000 PTE_P = Inr (0, s1)
     \<and> page_lookup s1 0x1000 0x400000 True = Inr ((Some 5, Some 0x4000), s1)
     \<and> mem s1 0x4000 = 0x5001
     \<and> page_insert ex_layout s1 0x1000 5 0x400000 PTE_W = Inr (0, s2)
     \<and> mem s2 0x4000 = 0x5003
     \<and> tlb s2 = []"
  by (simp add: ex_eval)




text \<open>
  C8: \<open>page_map_segment\<close> and alignment. A linear address that is not a multiple of the
  page size stops the kernel with a failed assertion. The size is not asserted: it is
  rounded up to the next multiple of the page size, and the call does what it does
  for the rounded size.
\<close>

theorem page_map_segment_alignment:
  "(la mod PGSIZE \<noteq> 0 \<longrightarrow> page_map_segment s pgdir la sz pa perm = Inl AssertFail)
   \<and> page_map_segment s pgdir la sz pa perm
       = page_map_segment s pgdir la (round_up sz PGSIZE) pa perm"
  by (simp add: page_map_segment_def round_up_idem)

theorem page_map_segment_alignment_witness:
  "page_map_segment ex_state 0x1000 0x400004 PGSIZE 0x8000 PTE_W = Inl AssertFail
   \<and> page_map_segment ex_state 0x1000 0x400004 PGSIZE 0x8000 PTE_W
       = page_map_segment ex_state 0x1000 0x400004 (round_up PGSIZE PGSIZE) 0x8000 PTE_W"
proof -
  have "(0x400004 :: u32) mod PGSIZE \<noteq> 0"
    by (simp add: PGSIZE_def)
  with page_map_segment_alignment [of "0x400004" ex_state "0x1000" PGSIZE "0x8000" PTE_W]
  show ?thesis by blast
qed

text \<open>
  A size of one byte at an aligned address: the call returns and one entry is written.
\<close>

theorem page_map_segment_unaligned_size:
  "(1 :: u32) mod PGSIZE \<noteq> 0
   \<and> (\<exists>s'. page_map_segment ex_state 0x1000 0x400000 1 0x8000 PTE_W = Inr s'
            \<and> mem s' 0x4000 = 0x8003)"
proof -
  have n: "unat (round_up 1 PGSIZE) div unat PGSIZE = Suc 0"
    by (simp add: round_up_def PGSIZE_def)
  have "\<exists>s'. page_map_segment ex_state 0x1000 0x400000 1 0x8000 PTE_W = Inr s'
            \<and> mem s' 0x4000 = 0x8003"
    unfolding page_map_segment_def Let_def n by (simp add: ex_eval)
  then show ?thesis
    by (simp add: PGSIZE_def)
qed





end
